theory Spec2Isabelle
  imports Main "HOL-Library.Word"
begin

unbundle bit_operations_syntax

section \<open>The runtime context of the Game Boy runtime library (gbrt.c)\<close>

text \<open>
  The runtime keeps all CPU and memory state in one \<^verbatim>\<open>GBContext\<close> structure that every
  function receives by pointer and mutates. Here each function takes the context and
  returns the updated one.

  The structure's declaration lives in the header \<^verbatim>\<open>gbrt.h\<close>; the widths below are the
  ones the code of \<^verbatim>\<open>gbrt.c\<close> needs: \<^verbatim>\<open>sp\<close>, \<^verbatim>\<open>pc\<close> are assigned and passed as
  \<^verbatim>\<open>uint16_t\<close>, \<^verbatim>\<open>a\<close> as \<^verbatim>\<open>uint8_t\<close>, the cycle counters as \<^verbatim>\<open>uint32_t\<close>, the sizes
  as \<^verbatim>\<open>size_t\<close>. The bank registers only ever receive a \<^verbatim>\<open>uint8_t\<close> value or the
  constant 1, so every unsigned field type holds them unchanged. The flag fields
  \<^verbatim>\<open>f_z\<close>, \<^verbatim>\<open>f_n\<close>, \<^verbatim>\<open>f_h\<close>, \<^verbatim>\<open>f_c\<close> and the latches \<^verbatim>\<open>ime\<close>, \<^verbatim>\<open>ime_pending\<close>,
  \<^verbatim>\<open>halted\<close>, \<^verbatim>\<open>stopped\<close>, \<^verbatim>\<open>ram_enabled\<close> only ever receive 0 or 1 and are only ever
  tested for being nonzero: they are booleans.

  A memory region is the list of its bytes; a pointer that may be \<^verbatim>\<open>NULL\<close>
  (\<^verbatim>\<open>rom\<close>, \<^verbatim>\<open>eram\<close>, \<^verbatim>\<open>ppu\<close>) is an option. The PPU's own state is a type
  parameter \<open>'p\<close>, the state of the platform layer (its window, its event queue and its
  two joypad bytes) a type parameter \<open>'w\<close>. The function-static \<^verbatim>\<open>poll_counter\<close> of
  \<^verbatim>\<open>gb_tick\<close> and the platform state are process-wide in C; with the single context
  the runtime has, they are fields of the same record.
\<close>

type_synonym u8 = "8 word"
type_synonym u16 = "16 word"
type_synonym u32 = "32 word"

record ('p, 'w) GBContext =
  a :: u8
  f_z :: bool
  f_n :: bool
  f_h :: bool
  f_c :: bool
  sp :: u16
  pc :: u16
  ime :: bool
  ime_pending :: bool
  halted :: bool
  stopped :: bool
  rom_bank :: u16
  ram_bank :: u8
  wram_bank :: u8
  vram_bank :: u8
  mbc_type :: u8
  ram_enabled :: bool
  cycles :: u32
  frame_cycles :: u32
  rom :: "u8 list option"
  rom_size :: nat
  eram :: "u8 list option"
  eram_size :: nat
  wram :: "u8 list"
  vram :: "u8 list"
  oam :: "u8 list"
  hram :: "u8 list"
  io :: "u8 list"
  ppu :: "'p option"
  platform :: 'w
  poll_counter :: u32

text \<open>
  The collaborators of the runtime: the PPU (\<^verbatim>\<open>ppu.h\<close>) and the platform layer
  (\<^verbatim>\<open>platform_sdl.h\<close>). Their code is outside the runtime core; the runtime functions
  take them as a parameter. \<^verbatim>\<open>GB_HAS_SDL2\<close> is the compile-time switch of the same
  name: the blocks under \<^verbatim>\<open>#ifdef GB_HAS_SDL2\<close> run exactly when it is set.
  A collaborator that receives the context pointer may change any field of it, so it maps
  contexts to contexts; one that receives only the PPU or only touches the platform maps
  that part.
\<close>

record ('p, 'w) GBEnv =
  GB_HAS_SDL2 :: bool
  ppu_read_register :: "'p \<Rightarrow> u16 \<Rightarrow> u8"
  ppu_write_register :: "('p, 'w) GBContext \<Rightarrow> u16 \<Rightarrow> u8 \<Rightarrow> ('p, 'w) GBContext"
  ppu_tick :: "('p, 'w) GBContext \<Rightarrow> u32 \<Rightarrow> ('p, 'w) GBContext"
  ppu_frame_ready :: "'p \<Rightarrow> bool"
  ppu_clear_frame_ready :: "'p \<Rightarrow> 'p"
  ppu_get_framebuffer :: "'p \<Rightarrow> u32 list option"
  gb_platform_poll_events :: "'w \<Rightarrow> bool \<times> 'w"
  gb_platform_render_frame :: "u32 list \<Rightarrow> 'w \<Rightarrow> 'w"
  gb_platform_vsync :: "'w \<Rightarrow> 'w"
  g_joypad_dpad :: "'w \<Rightarrow> u8"
  g_joypad_buttons :: "'w \<Rightarrow> u8"

section \<open>Memory access\<close>

text \<open>
  \<^verbatim>\<open>gb_read8\<close> routes by address range, in the order of the source's \<^verbatim>\<open>else if\<close>
  chain. Indexes are computed in \<^verbatim>\<open>int\<close>/\<^verbatim>\<open>size_t\<close> in C and are natural numbers
  here (no subtraction goes below zero: each branch has the region's start below the
  address). Echo RAM calls \<^verbatim>\<open>gb_read8\<close> again, 0x2000 lower.
\<close>

function gb_read8 :: "('p, 'w) GBEnv \<Rightarrow> ('p, 'w) GBContext \<Rightarrow> u16 \<Rightarrow> u8" where
  "gb_read8 env ctx addr =
    (if addr \<le> 0x3FFF then
       (case rom ctx of None \<Rightarrow> 0xFF | Some r \<Rightarrow> r ! unat addr)
     else if addr \<le> 0x7FFF then
       (let offset = unat (rom_bank ctx) * 0x4000 + (unat addr - 0x4000) in
        case rom ctx of
          None \<Rightarrow> 0xFF
        | Some r \<Rightarrow> if offset < rom_size ctx then r ! offset else 0xFF)
     else if addr \<le> 0x9FFF then
       vram ctx ! (unat addr - 0x8000 + unat (vram_bank ctx) * 0x2000)
     else if addr \<le> 0xBFFF then
       (case eram ctx of
          Some e \<Rightarrow>
            if ram_enabled ctx then
              (let offset = unat (ram_bank ctx) * 0x2000 + (unat addr - 0xA000) in
               if offset < eram_size ctx then e ! offset else 0xFF)
            else 0xFF
        | None \<Rightarrow> 0xFF)
     else if addr \<le> 0xCFFF then
       wram ctx ! (unat addr - 0xC000)
     else if addr \<le> 0xDFFF then
       wram ctx ! ((unat addr - 0xD000) + unat (wram_bank ctx) * 0x1000)
     else if addr \<le> 0xFDFF then
       gb_read8 env ctx (addr - 0x2000)
     else if addr \<le> 0xFE9F then
       oam ctx ! (unat addr - 0xFE00)
     else if addr \<le> 0xFEFF then
       0xFF
     else if addr \<le> 0xFF7F then
       (if 0xFF40 \<le> addr \<and> addr \<le> 0xFF4B \<and> ppu ctx \<noteq> None then
          ppu_read_register env (the (ppu ctx)) addr
        else if addr = 0xFF00 then
          (let joyp = io ctx ! 0x00;
               result = joyp OR 0x0F;
               result = (if GB_HAS_SDL2 env \<and> joyp AND 0x10 = 0
                         then (result AND 0xF0) OR (g_joypad_dpad env (platform ctx) AND 0x0F)
                         else result);
               result = (if GB_HAS_SDL2 env \<and> joyp AND 0x20 = 0
                         then (result AND 0xF0) OR (g_joypad_buttons env (platform ctx) AND 0x0F)
                         else result)
           in result)
        else io ctx ! (unat addr - 0xFF00))
     else if addr \<le> 0xFFFE then
       hram ctx ! (unat addr - 0xFF80)
     else
       io ctx ! 0x80)"
  by pat_completeness auto
termination
  by (relation "measure (\<lambda>(env, ctx, addr). unat addr)")
     (auto simp: word_le_nat_alt unat_sub_if_size word_size not_le)

declare gb_read8.simps [simp del]

text \<open>
  \<^verbatim>\<open>gb_write8\<close>: a write below 0x8000 only ever sets a bank register and returns. The
  VRAM offset is a \<^verbatim>\<open>uint16_t\<close> in the source, hence the reduction modulo 65536.
\<close>

function gb_write8 :: "('p, 'w) GBEnv \<Rightarrow> ('p, 'w) GBContext \<Rightarrow> u16 \<Rightarrow> u8 \<Rightarrow> ('p, 'w) GBContext" where
  "gb_write8 env ctx addr val =
    (if addr \<le> 0x7FFF then
       (if 0x2000 \<le> addr \<and> addr \<le> 0x3FFF then
          (let ctx = ctx\<lparr>rom_bank := ucast val\<rparr> in
           if rom_bank ctx = 0 then ctx\<lparr>rom_bank := 1\<rparr> else ctx)
        else if addr \<le> 0x1FFF then
          ctx\<lparr>ram_enabled := (val AND 0x0F = 0x0A)\<rparr>
        else if 0x4000 \<le> addr \<and> addr \<le> 0x5FFF then
          ctx\<lparr>ram_bank := val AND 0x03\<rparr>
        else ctx)
     else if addr \<le> 0x9FFF then
       (let offset = (unat addr - 0x8000 + unat (vram_bank ctx) * 0x2000) mod 0x10000 in
        ctx\<lparr>vram := (vram ctx)[offset := val]\<rparr>)
     else if addr \<le> 0xBFFF then
       (case eram ctx of
          Some e \<Rightarrow>
            if ram_enabled ctx then
              (let offset = unat (ram_bank ctx) * 0x2000 + (unat addr - 0xA000) in
               if offset < eram_size ctx then ctx\<lparr>eram := Some (e[offset := val])\<rparr> else ctx)
            else ctx
        | None \<Rightarrow> ctx)
     else if addr \<le> 0xCFFF then
       ctx\<lparr>wram := (wram ctx)[unat addr - 0xC000 := val]\<rparr>
     else if addr \<le> 0xDFFF then
       ctx\<lparr>wram := (wram ctx)[(unat addr - 0xD000) + unat (wram_bank ctx) * 0x1000 := val]\<rparr>
     else if addr \<le> 0xFDFF then
       gb_write8 env ctx (addr - 0x2000) val
     else if addr \<le> 0xFE9F then
       ctx\<lparr>oam := (oam ctx)[unat addr - 0xFE00 := val]\<rparr>
     else if addr \<le> 0xFEFF then
       ctx
     else if addr \<le> 0xFF7F then
       (if 0xFF40 \<le> addr \<and> addr \<le> 0xFF4B \<and> ppu ctx \<noteq> None then
          ppu_write_register env ctx addr val
        else ctx\<lparr>io := (io ctx)[unat addr - 0xFF00 := val]\<rparr>)
     else if addr \<le> 0xFFFE then
       ctx\<lparr>hram := (hram ctx)[unat addr - 0xFF80 := val]\<rparr>
     else
       ctx\<lparr>io := (io ctx)[0x80 := val]\<rparr>)"
  by pat_completeness auto
termination
  by (relation "measure (\<lambda>(env, ctx, addr, val). unat addr)")
     (auto simp: word_le_nat_alt unat_sub_if_size word_size not_le)

declare gb_write8.simps [simp del]

text \<open>
  The 16-bit accesses are two 8-bit ones; the second address is \<^verbatim>\<open>addr + 1\<close> passed as
  a \<^verbatim>\<open>uint16_t\<close>, so it wraps.
\<close>

definition gb_read16 :: "('p, 'w) GBEnv \<Rightarrow> ('p, 'w) GBContext \<Rightarrow> u16 \<Rightarrow> u16" where
  "gb_read16 env ctx addr =
    (let lo = gb_read8 env ctx addr;
         hi = gb_read8 env ctx (addr + 1)
     in (ucast lo :: u16) OR push_bit 8 (ucast hi :: u16))"

definition gb_write16 :: "('p, 'w) GBEnv \<Rightarrow> ('p, 'w) GBContext \<Rightarrow> u16 \<Rightarrow> u16 \<Rightarrow> ('p, 'w) GBContext" where
  "gb_write16 env ctx addr val =
    (let ctx = gb_write8 env ctx addr (ucast (val AND 0xFF));
         ctx = gb_write8 env ctx (addr + 1) (ucast (drop_bit 8 val))
     in ctx)"

section \<open>Stack operations\<close>

definition gb_push16 :: "('p, 'w) GBEnv \<Rightarrow> ('p, 'w) GBContext \<Rightarrow> u16 \<Rightarrow> ('p, 'w) GBContext" where
  "gb_push16 env ctx val =
    (let ctx = ctx\<lparr>sp := sp ctx - 2\<rparr>
     in gb_write16 env ctx (sp ctx) val)"

definition gb_pop16 :: "('p, 'w) GBEnv \<Rightarrow> ('p, 'w) GBContext \<Rightarrow> u16 \<times> ('p, 'w) GBContext" where
  "gb_pop16 env ctx =
    (let val = gb_read16 env ctx (sp ctx);
         ctx = ctx\<lparr>sp := sp ctx + 2\<rparr>
     in (val, ctx))"

section \<open>ALU operations\<close>

text \<open>
  C computes on \<^verbatim>\<open>int\<close> after the integer promotions, so the sums below are sums of
  integers; storing into a \<^verbatim>\<open>uint16_t\<close>, \<^verbatim>\<open>uint32_t\<close> or \<^verbatim>\<open>uint8_t\<close> reduces modulo
  the width (\<open>word_of_int\<close>, \<open>ucast\<close>).
\<close>

definition gb_add8 :: "('p, 'w) GBContext \<Rightarrow> u8 \<Rightarrow> ('p, 'w) GBContext" where
  "gb_add8 ctx val =
    (let result = (word_of_int (uint (a ctx) + uint val) :: u16)
     in ctx\<lparr>f_z := (result AND 0xFF = 0),
            f_n := False,
            f_h := (uint (a ctx AND 0x0F) + uint (val AND 0x0F) > 0x0F),
            f_c := (result > 0xFF),
            a := ucast result\<rparr>)"

text \<open>The offset of \<^verbatim>\<open>gb_add_sp\<close> is an \<^verbatim>\<open>int8_t\<close>: a byte read as two's complement.\<close>

definition gb_add_sp :: "('p, 'w) GBContext \<Rightarrow> u8 \<Rightarrow> ('p, 'w) GBContext" where
  "gb_add_sp ctx offset =
    (let result = (word_of_int (uint (sp ctx) + sint offset) :: u32)
     in ctx\<lparr>f_z := False,
            f_n := False,
            f_h := ((uint (sp ctx) AND 0x0F) + (sint offset AND 0x0F) > 0x0F),
            f_c := ((uint (sp ctx) AND 0xFF) + (sint offset AND 0xFF) > 0xFF),
            sp := ucast result\<rparr>)"

section \<open>Control flow\<close>

text \<open>
  \<^verbatim>\<open>gb_dispatch\<close> is the weak default of \<^verbatim>\<open>gbrt.c\<close>: it sets the program counter and
  calls \<^verbatim>\<open>gb_interpret\<close>. \<^verbatim>\<open>gb_interpret\<close> recognises the two OAM-DMA trampolines in
  HRAM, reading HRAM directly; for every other address it only logs.
\<close>

definition gb_ret :: "('p, 'w) GBEnv \<Rightarrow> ('p, 'w) GBContext \<Rightarrow> ('p, 'w) GBContext" where
  "gb_ret env ctx =
    (let (val, ctx) = gb_pop16 env ctx
     in ctx\<lparr>pc := val\<rparr>)"

definition gb_interpret :: "('p, 'w) GBEnv \<Rightarrow> ('p, 'w) GBContext \<Rightarrow> u16 \<Rightarrow> ('p, 'w) GBContext" where
  "gb_interpret env ctx addr =
    (let ctx = ctx\<lparr>pc := addr\<rparr> in
     if 0xFF80 \<le> addr \<and> addr \<le> 0xFFFE then
       (let opcode = hram ctx ! (unat addr - 0xFF80) in
        if opcode = 0xE0 then
          (let operand = hram ctx ! (unat addr - 0xFF80 + 1) in
           if operand = 0x46 then
             (let ctx = gb_write8 env ctx 0xFF46 (a ctx)
              in gb_ret env ctx)
           else ctx)
        else if opcode = 0x3E then
          (let op2 = hram ctx ! (unat addr - 0xFF80 + 2);
               operand2 = hram ctx ! (unat addr - 0xFF80 + 3) in
           if op2 = 0xE0 \<and> operand2 = 0x46 then
             (let dma_src = hram ctx ! (unat addr - 0xFF80 + 1);
                  ctx = ctx\<lparr>a := dma_src\<rparr>;
                  ctx = gb_write8 env ctx 0xFF46 (a ctx)
              in gb_ret env ctx)
           else ctx)
        else ctx)
     else ctx)"

definition gb_dispatch :: "('p, 'w) GBEnv \<Rightarrow> ('p, 'w) GBContext \<Rightarrow> u16 \<Rightarrow> ('p, 'w) GBContext" where
  "gb_dispatch env ctx addr =
    (let ctx = ctx\<lparr>pc := addr\<rparr>
     in gb_interpret env ctx addr)"

definition gb_call :: "('p, 'w) GBEnv \<Rightarrow> ('p, 'w) GBContext \<Rightarrow> u16 \<Rightarrow> ('p, 'w) GBContext" where
  "gb_call env ctx addr =
    (let ctx = gb_push16 env ctx (pc ctx)
     in gb_dispatch env ctx addr)"

section \<open>Timing and the interrupt controller\<close>

definition gb_add_cycles :: "('p, 'w) GBContext \<Rightarrow> u32 \<Rightarrow> ('p, 'w) GBContext" where
  "gb_add_cycles ctx n = ctx\<lparr>cycles := cycles ctx + n, frame_cycles := frame_cycles ctx + n\<rparr>"

text \<open>
  \<^verbatim>\<open>gb_tick\<close> is a sequence of blocks, each under its own comment in the source; each
  block is a definition here. The counters \<^verbatim>\<open>int_check_count\<close> and \<^verbatim>\<open>frame_count\<close>
  only feed log messages and are left out, as are the log messages.

  The block ``Check and dispatch interrupts'':
\<close>

definition gb_tick_interrupts :: "('p, 'w) GBEnv \<Rightarrow> ('p, 'w) GBContext \<Rightarrow> ('p, 'w) GBContext" where
  "gb_tick_interrupts env ctx =
    (if ime ctx then
       (let if_reg = io ctx ! 0x0F;
            ie_reg = io ctx ! 0x80;
            pending = if_reg AND ie_reg AND 0x1F in
        if pending \<noteq> 0 then
          (let ctx = ctx\<lparr>ime := False\<rparr>;
               ctx = ctx\<lparr>halted := False\<rparr>;
               (vector, bit) =
                 (if pending AND 0x01 \<noteq> 0 then (0x0040 :: u16, 0x01 :: u8)
                  else if pending AND 0x02 \<noteq> 0 then (0x0048, 0x02)
                  else if pending AND 0x04 \<noteq> 0 then (0x0050, 0x04)
                  else if pending AND 0x08 \<noteq> 0 then (0x0058, 0x08)
                  else if pending AND 0x10 \<noteq> 0 then (0x0060, 0x10)
                  else (0, 0)) in
           if vector \<noteq> 0 then
             (let ctx = ctx\<lparr>io := (io ctx)[0x0F := (io ctx ! 0x0F) AND NOT bit]\<rparr>
              in gb_dispatch env ctx vector)
           else ctx)
        else ctx)
     else ctx)"

text \<open>
  The block ``Update PPU''. The PPU keeps the context's pointer to itself; the frame-ready
  test reads it again after \<^verbatim>\<open>ppu_tick\<close>.
\<close>

definition gb_tick_ppu :: "('p, 'w) GBEnv \<Rightarrow> ('p, 'w) GBContext \<Rightarrow> u32 \<Rightarrow> ('p, 'w) GBContext" where
  "gb_tick_ppu env ctx n =
    (if ppu ctx \<noteq> None then
       (let ctx = ppu_tick env ctx n in
        case ppu ctx of
          None \<Rightarrow> ctx
        | Some p \<Rightarrow>
            if ppu_frame_ready env p then
              (let ctx =
                     (if GB_HAS_SDL2 env then
                        (let w = (case ppu_get_framebuffer env p of
                                    Some fb \<Rightarrow> gb_platform_render_frame env fb (platform ctx)
                                  | None \<Rightarrow> platform ctx)
                         in ctx\<lparr>platform := gb_platform_vsync env w\<rparr>)
                      else ctx);
                   ctx = ctx\<lparr>ppu := Some (ppu_clear_frame_ready env p)\<rparr>
               in ctx\<lparr>poll_counter := 0\<rparr>)
            else ctx)
     else ctx)"

text \<open>The block ``Poll events'', compiled only with \<^verbatim>\<open>GB_HAS_SDL2\<close>.\<close>

definition gb_tick_poll :: "('p, 'w) GBEnv \<Rightarrow> ('p, 'w) GBContext \<Rightarrow> u32 \<Rightarrow> ('p, 'w) GBContext" where
  "gb_tick_poll env ctx n =
    (if GB_HAS_SDL2 env then
       (let ctx = ctx\<lparr>poll_counter := poll_counter ctx + n\<rparr> in
        if poll_counter ctx \<ge> 4096 then
          (let ctx = ctx\<lparr>poll_counter := 0\<rparr>;
               (ok, w) = gb_platform_poll_events env (platform ctx);
               ctx = ctx\<lparr>platform := w\<rparr>
           in if ok then ctx else ctx\<lparr>stopped := True\<rparr>)
        else ctx)
     else ctx)"

definition gb_tick :: "('p, 'w) GBEnv \<Rightarrow> ('p, 'w) GBContext \<Rightarrow> u32 \<Rightarrow> ('p, 'w) GBContext" where
  "gb_tick env ctx n =
    (let ctx = gb_add_cycles ctx n;
         ctx = (if ime_pending ctx then ctx\<lparr>ime := True, ime_pending := False\<rparr> else ctx);
         ctx = gb_tick_interrupts env ctx;
         ctx = gb_tick_ppu env ctx n;
         ctx = gb_tick_poll env ctx n
     in ctx)"

section \<open>HALT\<close>





section \<open>Execution\<close>

definition gb_step :: "('p, 'w) GBEnv \<Rightarrow> ('p, 'w) GBContext \<Rightarrow> u32 \<times> ('p, 'w) GBContext" where
  "gb_step env ctx =
    (let start = cycles ctx;
         ctx = gb_dispatch env ctx (pc ctx);
         ctx = (if ime_pending ctx then ctx\<lparr>ime := True, ime_pending := False\<rparr> else ctx)
     in (cycles ctx - start, ctx))"

section \<open>Loading a ROM image\<close>



section \<open>The generic path of the interpreter\<close>

text \<open>
  Modelled from the spec: the generic one-instruction path of the interpreter. Its code
  (\<^verbatim>\<open>runtime/src/interpreter.c\<close>) is not among the sources; \<^verbatim>\<open>gb_interpret\<close> of
  \<^verbatim>\<open>gbrt.c\<close> has only the two trampoline cases. The specification (section 4.6) has the
  interpreter read the opcode at PC through the bus, decode one instruction, execute it
  with the shared bus operations, advance PC by the instruction's length and emit the tick
  for its cycle count. Only the two opcodes a trampoline starts with are decoded here:
  0xE0, \<^verbatim>\<open>LDH (n),A\<close> (two bytes, 12 cycles, stores A at 0xFF00 + n), and 0x3E,
  \<^verbatim>\<open>LD A,n\<close> (two bytes, 8 cycles); the result is \<open>None\<close> for every other opcode.
\<close>

definition interp_generic :: "('p, 'w) GBEnv \<Rightarrow> ('p, 'w) GBContext \<Rightarrow> u16 \<Rightarrow> ('p, 'w) GBContext option" where
  "interp_generic env ctx addr =
    (let ctx = ctx\<lparr>pc := addr\<rparr>;
         opcode = gb_read8 env ctx addr in
     if opcode = 0xE0 then
       (let n = gb_read8 env ctx (addr + 1);
            ctx = gb_write8 env ctx (0xFF00 + ucast n) (a ctx);
            ctx = ctx\<lparr>pc := addr + 2\<rparr>
        in Some (gb_tick env ctx 12))
     else if opcode = 0x3E then
       (let n = gb_read8 env ctx (addr + 1);
            ctx = ctx\<lparr>a := n\<rparr>;
            ctx = ctx\<lparr>pc := addr + 2\<rparr>
        in Some (gb_tick env ctx 8))
     else None)"

section \<open>Properties of contexts and collaborators used in the statements\<close>

text \<open>
  The regions have the sizes \<^verbatim>\<open>gb_context_create\<close> allocates (WRAM 8 banks of 0x1000,
  VRAM 2 banks of 0x2000, OAM 0xA0, HRAM 0x7F, I/O 0x80 + 1), and the WRAM and VRAM bank
  numbers stay inside them.
\<close>

definition ctx_wf :: "('p, 'w) GBContext \<Rightarrow> bool" where
  "ctx_wf ctx \<longleftrightarrow>
     length (wram ctx) = 0x8000 \<and> length (vram ctx) = 0x4000 \<and>
     length (oam ctx) = 0xA0 \<and> length (hram ctx) = 0x7F \<and> length (io ctx) = 0x81 \<and>
     unat (wram_bank ctx) < 8 \<and> unat (vram_bank ctx) < 2"

text \<open>
  The addresses the bus backs with plain memory whatever the latches say: VRAM, WRAM,
  echo RAM, OAM and HRAM.
\<close>

definition plain_ram :: "u16 \<Rightarrow> bool" where
  "plain_ram addr \<longleftrightarrow>
     (0x8000 \<le> addr \<and> addr \<le> 0x9FFF) \<or> (0xC000 \<le> addr \<and> addr \<le> 0xFE9F) \<or>
     (0xFF80 \<le> addr \<and> addr \<le> 0xFFFE)"

text \<open>The two trampoline patterns, as \<^verbatim>\<open>gb_interpret\<close> tests them.\<close>

definition trampoline_ldh :: "('p, 'w) GBContext \<Rightarrow> u16 \<Rightarrow> bool" where
  "trampoline_ldh ctx addr \<longleftrightarrow>
     0xFF80 \<le> addr \<and> addr \<le> 0xFFFE \<and>
     hram ctx ! (unat addr - 0xFF80) = 0xE0 \<and> hram ctx ! (unat addr - 0xFF80 + 1) = 0x46"

definition trampoline_tetris :: "('p, 'w) GBContext \<Rightarrow> u16 \<Rightarrow> bool" where
  "trampoline_tetris ctx addr \<longleftrightarrow>
     0xFF80 \<le> addr \<and> addr \<le> 0xFFFE \<and>
     hram ctx ! (unat addr - 0xFF80) = 0x3E \<and>
     hram ctx ! (unat addr - 0xFF80 + 2) = 0xE0 \<and> hram ctx ! (unat addr - 0xFF80 + 3) = 0x46"

text \<open>The collaborators leave a field of the context alone.\<close>

definition ppu_keeps :: "('p, 'w) GBEnv \<Rightarrow> (('p, 'w) GBContext \<Rightarrow> 'x) \<Rightarrow> bool" where
  "ppu_keeps env field \<longleftrightarrow>
     (\<forall>ctx n. field (ppu_tick env ctx n) = field ctx) \<and>
     (\<forall>ctx addr val. field (ppu_write_register env ctx addr val) = field ctx)"

section \<open>A concrete context and concrete collaborators\<close>

text \<open>
  For the concrete instances below: collaborators that do nothing (a PPU that never
  signals a frame and answers 0xFF, the platform stubs of the build without SDL), and a
  context with zero-filled regions of the sizes \<^verbatim>\<open>gb_context_create\<close> allocates, the
  register and bank values of \<^verbatim>\<open>gb_context_reset\<close>, and, of the I/O power-on values,
  IF = 0xE1.
\<close>

definition stub_env :: "(unit, unit) GBEnv" where
  "stub_env =
    \<lparr>GB_HAS_SDL2 = False,
     ppu_read_register = (\<lambda>p addr. 0xFF),
     ppu_write_register = (\<lambda>ctx addr val. ctx),
     ppu_tick = (\<lambda>ctx n. ctx),
     ppu_frame_ready = (\<lambda>p. False),
     ppu_clear_frame_ready = (\<lambda>p. p),
     ppu_get_framebuffer = (\<lambda>p. None),
     gb_platform_poll_events = (\<lambda>w. (True, w)),
     gb_platform_render_frame = (\<lambda>fb w. w),
     gb_platform_vsync = (\<lambda>w. w),
     g_joypad_dpad = (\<lambda>w. 0xFF),
     g_joypad_buttons = (\<lambda>w. 0xFF)\<rparr>"

definition reset_ctx :: "(unit, unit) GBContext" where
  "reset_ctx =
    \<lparr>a = 0x01, f_z = True, f_n = False, f_h = True, f_c = True,
     sp = 0xFFFE, pc = 0x0100,
     ime = False, ime_pending = False, halted = False, stopped = False,
     rom_bank = 1, ram_bank = 0, wram_bank = 1, vram_bank = 0, mbc_type = 0,
     ram_enabled = False, cycles = 0, frame_cycles = 0,
     rom = None, rom_size = 0, eram = None, eram_size = 0,
     wram = replicate 0x8000 0, vram = replicate 0x4000 0, oam = replicate 0xA0 0,
     hram = replicate 0x7F 0, io = (replicate 0x81 0)[0x0F := 0xE1],
     ppu = Some (), platform = (), poll_counter = 0\<rparr>"

text \<open>The same context once a program has enabled the VBlank interrupt in IE (IE = 0x01).\<close>

definition vblank_ctx :: "(unit, unit) GBContext" where
  "vblank_ctx = reset_ctx\<lparr>io := (io reset_ctx)[0x80 := 0x01]\<rparr>"

section \<open>Facts about bytes and words\<close>

lemma unat_u8_bound: "unat (x::u8) < 256"
  using unsigned_less[of x, where 'a=nat] by simp

lemma unat_u16_bound: "unat (x::u16) < 65536"
  using unsigned_less[of x, where 'a=nat] by simp

lemma unat_sum_u16: "unat (word_of_int (uint (x::u8) + uint (v::u8)) :: u16) = unat x + unat v"
proof -
  have b: "unat x + unat v < 65536"
    using unat_u8_bound[of x] unat_u8_bound[of v] by linarith
  have "uint x + uint v = int (unat x + unat v)"
    by (simp only: uint_nat of_nat_add)
  then have "(word_of_int (uint x + uint v) :: u16) = of_nat (unat x + unat v)"
    by (simp only: of_int_of_nat_eq)
  then have "unat (word_of_int (uint x + uint v) :: u16) = (unat x + unat v) mod 65536"
    by (simp only: unat_of_nat) simp
  with b show ?thesis by simp
qed

lemma and_FF_u16: "unat ((w::u16) AND 0xFF) = unat w mod 256"
proof -
  have "w AND 0xFF = take_bit 8 w"
    by (simp add: take_bit_eq_mask mask_eq_exp_minus_1)
  then have "unat (w AND 0xFF) = take_bit 8 (unat w)"
    by (simp only: unsigned_take_bit_eq)
  then show ?thesis by (simp only: take_bit_eq_mod) simp
qed

lemma and_0F_u8: "unat ((w::u8) AND 0x0F) = unat w mod 16"
proof -
  have "w AND 0x0F = take_bit 4 w"
    by (simp add: take_bit_eq_mask mask_eq_exp_minus_1)
  then have "unat (w AND 0x0F) = take_bit 4 (unat w)"
    by (simp only: unsigned_take_bit_eq)
  then show ?thesis by (simp only: take_bit_eq_mod) simp
qed

lemma ucast_u16_u8: "unat (ucast (w::u16) :: u8) = unat w mod 256"
  by (simp add: unsigned_ucast_eq take_bit_eq_mod)

section \<open>The 8-bit addition\<close>

lemma gb_add8_word: "(ucast (word_of_int (uint (x::u8) + uint (v::u8)) :: u16) :: u8) = x + v"
proof (rule unsigned_word_eqI[where 'a=nat])
  have "unat (ucast (word_of_int (uint x + uint v) :: u16) :: u8) = (unat x + unat v) mod 256"
    by (simp only: ucast_u16_u8 unat_sum_u16)
  then show "unat (ucast (word_of_int (uint x + uint v) :: u16) :: u8) = unat (x + v)"
    by (simp add: unat_word_ariths)
qed

lemma gb_add8_eq:
  "gb_add8 ctx v = ctx\<lparr>f_z := ((unat (a ctx) + unat v) mod 256 = 0),
                        f_n := False,
                        f_h := (unat (a ctx) mod 16 + unat v mod 16 > 15),
                        f_c := (unat (a ctx) + unat v > 255),
                        a := a ctx + v\<rparr>"
proof -
  let ?r = "word_of_int (uint (a ctx) + uint v) :: u16"
  have "(?r AND 0xFF = 0) = (unat (?r AND 0xFF) = 0)"
    by (simp only: unsigned_eq_0_iff)
  then have z: "(?r AND 0xFF = 0) = ((unat (a ctx) + unat v) mod 256 = 0)"
    by (simp only: and_FF_u16 unat_sum_u16)
  have "(uint (a ctx AND 0x0F) + uint (v AND 0x0F) > 0x0F)
      = (int (unat (a ctx AND 0x0F) + unat (v AND 0x0F)) > int 15)"
    by (simp only: uint_nat of_nat_add of_nat_numeral)
  then have h: "(uint (a ctx AND 0x0F) + uint (v AND 0x0F) > 0x0F)
      = (unat (a ctx) mod 16 + unat v mod 16 > 15)"
    by (simp only: of_nat_less_iff and_0F_u8)
  have "(?r > 0xFF) = (unat (0xFF::u16) < unat ?r)"
    by (simp only: word_less_nat_alt)
  then have c: "(?r > 0xFF) = (unat (a ctx) + unat v > 255)"
    by (simp only: unat_sum_u16) simp
  show ?thesis
    unfolding gb_add8_def Let_def z h c gb_add8_word ..
qed

text \<open>
  C5. For every pre-state, \<^verbatim>\<open>gb_add8\<close> sets A to (A + v) mod 256 and the flags to
  Z = (result = 0), N = 0, H = ((A AND 0xF) + (v AND 0xF) > 0xF), C = (A + v > 0xFF), and
  changes nothing else; with A = 0x3A and v = 0xC6 the result has A = 0, Z = 1, N = 0,
  H = 1, C = 1.
\<close>

theorem gb_add8_flags:
  "a (gb_add8 ctx v) = a ctx + v \<and>
   unat (a (gb_add8 ctx v)) = (unat (a ctx) + unat v) mod 256 \<and>
   f_z (gb_add8 ctx v) = (a (gb_add8 ctx v) = 0) \<and>
   f_n (gb_add8 ctx v) = False \<and>
   f_h (gb_add8 ctx v) = (unat (a ctx AND 0xF) + unat (v AND 0xF) > 0xF) \<and>
   f_c (gb_add8 ctx v) = (unat (a ctx) + unat v > 0xFF) \<and>
   gb_add8 ctx v = ctx\<lparr>f_z := f_z (gb_add8 ctx v), f_n := False, f_h := f_h (gb_add8 ctx v),
                        f_c := f_c (gb_add8 ctx v), a := a ctx + v\<rparr> \<and>
   a (gb_add8 (ctx\<lparr>a := 0x3A\<rparr>) 0xC6) = 0x00 \<and>
   f_z (gb_add8 (ctx\<lparr>a := 0x3A\<rparr>) 0xC6) \<and>
   \<not> f_n (gb_add8 (ctx\<lparr>a := 0x3A\<rparr>) 0xC6) \<and>
   f_h (gb_add8 (ctx\<lparr>a := 0x3A\<rparr>) 0xC6) \<and>
   f_c (gb_add8 (ctx\<lparr>a := 0x3A\<rparr>) 0xC6)"
proof -
  have z: "(a ctx + v = 0) = ((unat (a ctx) + unat v) mod 256 = 0)"
    by (simp add: word_eq_iff_unsigned[where 'a=nat] unat_word_ariths)
  show ?thesis
    by (simp add: gb_add8_eq z and_0F_u8 unat_word_ariths)
qed

section \<open>The signed addition to the stack pointer\<close>

lemma int_and_0F: "(k::int) AND 0x0F = k mod 16"
proof -
  have "k AND 0x0F = take_bit 4 k" by (simp add: take_bit_eq_mask mask_eq_exp_minus_1)
  then show ?thesis by (simp only: take_bit_eq_mod) simp
qed

lemma int_and_FF: "(k::int) AND 0xFF = k mod 256"
proof -
  have "k AND 0xFF = take_bit 8 k" by (simp add: take_bit_eq_mask mask_eq_exp_minus_1)
  then show ?thesis by (simp only: take_bit_eq_mod) simp
qed

lemma sint_mod_256: "sint (w::u8) mod 256 = uint w"
proof -
  have "take_bit 8 (sint w) = take_bit 8 (uint w)"
    by (simp add: sint_uint take_bit_signed_take_bit)
  moreover have "uint w mod 256 = uint w"
    using uint_lt2p[of w] by (simp add: mod_pos_pos_trivial)
  ultimately show ?thesis by (simp add: take_bit_eq_mod)
qed

lemma sint_mod_16: "sint (w::u8) mod 16 = uint w mod 16"
proof -
  have "sint w mod 256 mod 16 = sint w mod 16"
    by (rule mod_mod_cancel) simp
  then show ?thesis by (simp only: sint_mod_256)
qed

lemma ucast_sp_lo: "uint (ucast (s::u16) :: u8) = uint s mod 256"
  by (simp add: unsigned_ucast_eq take_bit_eq_mod)

lemma ucast_u32_u16_of_int: "(ucast (word_of_int k :: u32) :: u16) = word_of_int k"
proof (rule word_uint_eqI)
  have "k mod 4294967296 mod 65536 = k mod 65536"
    by (rule mod_mod_cancel) simp
  then show "uint (ucast (word_of_int k :: u32) :: u16) = uint (word_of_int k :: u16)"
    by (simp add: unsigned_ucast_eq uint_word_of_int take_bit_eq_mod)
qed

lemma add_sp_word: "(ucast (word_of_int (uint (s::u16) + sint (d::u8)) :: u32) :: u16) = s + scast d"
proof -
  have "(ucast (word_of_int (uint s + sint d) :: u32) :: u16) = word_of_int (uint s + sint d)"
    by (rule ucast_u32_u16_of_int)
  also have "\<dots> = s + scast d" by simp
  finally show ?thesis .
qed

lemma gb_add_sp_eq:
  "gb_add_sp ctx d = ctx\<lparr>f_z := False, f_n := False,
       f_h := (uint (sp ctx) mod 16 + uint d mod 16 > 15),
       f_c := (uint (sp ctx) mod 256 + uint d > 255),
       sp := sp ctx + scast d\<rparr>"
  unfolding gb_add_sp_def Let_def add_sp_word int_and_0F int_and_FF sint_mod_256 sint_mod_16
  by simp


text \<open>
  C6. For every signed 8-bit offset and every SP, \<^verbatim>\<open>gb_add_sp\<close> sets SP to
  (SP + offset) mod 2^16 and the flags to Z = 0, N = 0, with H and C the carries out of
  bit 3 and bit 7 of the unsigned addition of SP's low byte and the offset's byte, and
  changes nothing else.
\<close>

theorem gb_add_sp_flags:
  "sp (gb_add_sp ctx d) = sp ctx + scast d \<and>
   uint (sp (gb_add_sp ctx d)) = (uint (sp ctx) + sint d) mod 2 ^ 16 \<and>
   f_z (gb_add_sp ctx d) = False \<and>
   f_n (gb_add_sp ctx d) = False \<and>
   f_h (gb_add_sp ctx d) = (unat ((ucast (sp ctx) :: u8) AND 0x0F) + unat (d AND 0x0F) > 0x0F) \<and>
   f_c (gb_add_sp ctx d) = (unat (ucast (sp ctx) :: u8) + unat d > 0xFF) \<and>
   gb_add_sp ctx d = ctx\<lparr>f_z := False, f_n := False, f_h := f_h (gb_add_sp ctx d),
                          f_c := f_c (gb_add_sp ctx d), sp := sp ctx + scast d\<rparr>"
proof -
  have s: "uint (sp ctx + scast d) = (uint (sp ctx) + sint d) mod 2 ^ 16"
  proof -
    have "sp ctx + scast d = word_of_int (uint (sp ctx) + sint d)" by simp
    then show ?thesis by (simp only: uint_word_of_int) simp
  qed
  have lo: "unat (ucast (sp ctx) :: u8) = unat (sp ctx) mod 256"
    by (simp add: unsigned_ucast_eq take_bit_eq_mod)
  have m: "unat (sp ctx) mod 256 mod 16 = unat (sp ctx) mod 16"
    by (rule mod_mod_cancel) simp
  have h: "(uint (sp ctx) mod 16 + uint d mod 16 > 15)
         = (unat ((ucast (sp ctx) :: u8) AND 0x0F) + unat (d AND 0x0F) > 0x0F)"
  proof -
    have "(uint (sp ctx) mod 16 + uint d mod 16 > 15)
        = (int (unat (sp ctx) mod 16 + unat d mod 16) > int 15)"
      by (simp only: uint_nat of_nat_add of_nat_numeral zmod_int)
    then show ?thesis by (simp only: of_nat_less_iff and_0F_u8 lo m)
  qed
  have c: "(uint (sp ctx) mod 256 + uint d > 255)
         = (unat (ucast (sp ctx) :: u8) + unat d > 0xFF)"
  proof -
    have "(uint (sp ctx) mod 256 + uint d > 255)
        = (int (unat (sp ctx) mod 256 + unat d) > int 255)"
      by (simp only: uint_nat of_nat_add of_nat_numeral zmod_int)
    then show ?thesis by (simp only: of_nat_less_iff lo)
  qed
  show ?thesis
    unfolding gb_add_sp_eq h c using s by simp
qed

section \<open>The concrete context, field by field\<close>

lemma reset_ctx_fields:
  "a reset_ctx = 0x01" "f_z reset_ctx" "\<not> f_n reset_ctx" "f_h reset_ctx" "f_c reset_ctx"
  "sp reset_ctx = 0xFFFE" "pc reset_ctx = 0x0100"
  "\<not> ime reset_ctx" "\<not> ime_pending reset_ctx" "\<not> halted reset_ctx" "\<not> stopped reset_ctx"
  "rom_bank reset_ctx = 1" "ram_bank reset_ctx = 0" "wram_bank reset_ctx = 1"
  "vram_bank reset_ctx = 0" "mbc_type reset_ctx = 0" "\<not> ram_enabled reset_ctx"
  "cycles reset_ctx = 0" "frame_cycles reset_ctx = 0"
  "rom reset_ctx = None" "rom_size reset_ctx = 0" "eram reset_ctx = None" "eram_size reset_ctx = 0"
  "wram reset_ctx = replicate 0x8000 0" "vram reset_ctx = replicate 0x4000 0"
  "oam reset_ctx = replicate 0xA0 0" "hram reset_ctx = replicate 0x7F 0"
  "io reset_ctx = (replicate 0x81 0)[0x0F := 0xE1]"
  "ppu reset_ctx = Some ()" "poll_counter reset_ctx = 0"
  by (simp_all add: reset_ctx_def)

lemma stub_env_fields:
  "\<not> GB_HAS_SDL2 stub_env"
  "ppu_read_register stub_env p addr = 0xFF"
  "ppu_write_register stub_env ctx addr v = ctx"
  "ppu_tick stub_env ctx n = ctx"
  "\<not> ppu_frame_ready stub_env p"
  by (simp_all add: stub_env_def)

section \<open>Bus accesses at fixed addresses and bank-register writes\<close>

lemma unat_ucast_u8_u16: "unat (ucast (v::u8) :: u16) = unat v"
proof -
  have "unat v < 2 ^ 16" using unat_u8_bound[of v] by simp
  then show ?thesis by (simp add: unsigned_ucast_eq take_bit_nat_eq_self)
qed

lemma gb_write8_rom_bank:
  "0x2000 \<le> addr \<Longrightarrow> addr \<le> 0x3FFF \<Longrightarrow>
   gb_write8 env ctx addr v = ctx\<lparr>rom_bank := (if v = 0 then 1 else ucast v)\<rparr>"
proof -
  assume h: "0x2000 \<le> addr" "addr \<le> 0x3FFF"
  then have le: "addr \<le> 0x7FFF" by (simp add: word_le_nat_alt)
  have z: "((ucast v :: u16) = 0) = (v = 0)"
    by (simp add: word_eq_iff_unsigned[where 'a=nat] unat_ucast_u8_u16)
  show ?thesis
    by (subst gb_write8.simps) (simp add: h le Let_def z)
qed

lemma gb_write8_ram_enable:
  "addr \<le> 0x1FFF \<Longrightarrow>
   gb_write8 env ctx addr v = ctx\<lparr>ram_enabled := (v AND 0x0F = 0x0A)\<rparr>"
proof -
  assume h: "addr \<le> 0x1FFF"
  then have le: "addr \<le> 0x7FFF" "\<not> 0x2000 \<le> addr" by (simp_all add: word_le_nat_alt)
  show ?thesis
    by (subst gb_write8.simps) (simp add: h le)
qed

lemma gb_read8_IE: "gb_read8 env ctx 0xFFFF = io ctx ! 0x80"
  by (subst gb_read8.simps) simp

lemma gb_read8_0: "gb_read8 env ctx 0 = (case rom ctx of None \<Rightarrow> 0xFF | Some r \<Rightarrow> r ! 0)"
  by (subst gb_read8.simps) (simp split: option.split)

lemma gb_write8_IE: "gb_write8 env ctx 0xFFFF v = ctx\<lparr>io := (io ctx)[0x80 := v]\<rparr>"
  by (subst gb_write8.simps) simp

lemma ucast_and_FF: "(ucast ((v::u16) AND 0xFF) :: u8) = ucast v"
  by (rule unsigned_word_eqI[where 'a=nat]) (simp only: ucast_u16_u8 and_FF_u16 mod_mod_trivial)

lemma u16_wrap_up: "(0xFFFF::u16) + 1 = 0"
  by simp

lemma u16_wrap_down: "(0x0001::u16) - 2 = 0xFFFF"
  by simp

text \<open>
  C4, as the code has it. For every byte v written to an address in 0x2000-0x3FFF, whatever
  the MBC type, the selected ROM bank becomes v itself (all eight bits), with 0 promoted to
  1; for every v written to 0x0000-0x1FFF, ERAM is enabled if and only if the low nibble of
  v is 0xA. No such write stores data into a memory region.
\<close>

theorem gb_write8_bank_registers:
  "(0x2000 \<le> addr \<and> addr \<le> 0x3FFF \<longrightarrow>
      gb_write8 env ctx addr v = ctx\<lparr>rom_bank := (if v = 0 then 1 else ucast v)\<rparr>) \<and>
   (addr \<le> 0x1FFF \<longrightarrow>
      gb_write8 env ctx addr v = ctx\<lparr>ram_enabled := (v AND 0x0F = 0x0A)\<rparr>) \<and>
   (addr \<le> 0x3FFF \<longrightarrow>
      rom (gb_write8 env ctx addr v) = rom ctx \<and> eram (gb_write8 env ctx addr v) = eram ctx \<and>
      vram (gb_write8 env ctx addr v) = vram ctx \<and> wram (gb_write8 env ctx addr v) = wram ctx \<and>
      oam (gb_write8 env ctx addr v) = oam ctx \<and> hram (gb_write8 env ctx addr v) = hram ctx \<and>
      io (gb_write8 env ctx addr v) = io ctx)"
proof -
  have "addr \<le> 0x1FFF \<or> (0x2000 \<le> addr \<and> addr \<le> 0x3FFF) \<or> \<not> addr \<le> 0x3FFF"
    by (auto simp add: word_le_nat_alt)
  then show ?thesis
    by (auto simp add: gb_write8_rom_bank gb_write8_ram_enable)
qed

theorem gb_write8_bank_registers_witness:
  "rom_bank (gb_write8 stub_env (reset_ctx\<lparr>mbc_type := 0x01\<rparr>) 0x2100 0x45) = 0x45 \<and>
   rom_bank (gb_write8 stub_env (reset_ctx\<lparr>mbc_type := 0x01\<rparr>) 0x2100 0x00) = 0x01 \<and>
   ram_enabled (gb_write8 stub_env (reset_ctx\<lparr>mbc_type := 0x01\<rparr>) 0x0000 0x3A) \<and>
   wram (gb_write8 stub_env (reset_ctx\<lparr>mbc_type := 0x01\<rparr>) 0x2100 0x45) = replicate 0x8000 0"
  using gb_write8_bank_registers[where addr="0x2100" and env=stub_env and ctx="reset_ctx\<lparr>mbc_type := 0x01\<rparr>" and v="0x45"]
        gb_write8_bank_registers[where addr="0x2100" and env=stub_env and ctx="reset_ctx\<lparr>mbc_type := 0x01\<rparr>" and v="0x00"]
        gb_write8_bank_registers[where addr="0x0000" and env=stub_env and ctx="reset_ctx\<lparr>mbc_type := 0x01\<rparr>" and v="0x3A"]
  by (simp add: reset_ctx_fields)

text \<open>
  C4 as stated fails: under MBC1 the byte 0x20, whose low five bits are zero, selects bank
  0x20 and not bank 1.
\<close>

theorem mbc1_rom_bank_not_masked:
  "rom_bank (gb_write8 stub_env (reset_ctx\<lparr>mbc_type := 0x01\<rparr>) 0x2000 0x20) = 0x20 \<and>
   rom_bank (gb_write8 stub_env (reset_ctx\<lparr>mbc_type := 0x01\<rparr>) 0x2000 0x20)
     \<noteq> (if (0x20 :: u8) AND 0x1F = 0 then 1 else ucast ((0x20 :: u8) AND 0x1F))"
  by (simp add: gb_write8_rom_bank)


text \<open>
  C10. The 16-bit accesses wrap the address modulo 2^16: reading at 0xFFFF gives IE as the
  low byte and the byte at 0x0000 (ROM bank 0, 0xFF without a ROM) as the high byte;
  writing at 0xFFFF stores the low byte in IE and sends the high byte to address 0x0000,
  where it only sets the RAM-enable latch; a push with SP = 1 writes through 0xFFFF and
  0x0000.
\<close>

theorem bus16_wraps:
  "gb_read16 env ctx 0xFFFF =
     (ucast (io ctx ! 0x80) :: u16) OR push_bit 8 (ucast (gb_read8 env ctx 0x0000) :: u16) \<and>
   gb_read8 env ctx 0x0000 = (case rom ctx of None \<Rightarrow> 0xFF | Some r \<Rightarrow> r ! 0) \<and>
   gb_read8 env ctx 0xFFFF = io ctx ! 0x80 \<and>
   gb_write16 env ctx 0xFFFF v =
     gb_write8 env (gb_write8 env ctx 0xFFFF (ucast v)) 0x0000 (ucast (drop_bit 8 v)) \<and>
   gb_write16 env ctx 0xFFFF v =
     ctx\<lparr>io := (io ctx)[0x80 := ucast v],
         ram_enabled := ((ucast (drop_bit 8 v) :: u8) AND 0x0F = 0x0A)\<rparr> \<and>
   gb_push16 env (ctx\<lparr>sp := 0x0001\<rparr>) v =
     gb_write8 env (gb_write8 env (ctx\<lparr>sp := 0xFFFF\<rparr>) 0xFFFF (ucast v)) 0x0000 (ucast (drop_bit 8 v)) \<and>
   (length (io ctx) = 0x81 \<longrightarrow>
      gb_read8 env (gb_write16 env ctx 0xFFFF v) 0xFFFF = ucast v)"
proof -
  have r16: "gb_read16 env ctx 0xFFFF =
     (ucast (io ctx ! 0x80) :: u16) OR push_bit 8 (ucast (gb_read8 env ctx 0x0000) :: u16)"
    unfolding gb_read16_def Let_def u16_wrap_up gb_read8_IE ..
  have w16: "\<And>c. gb_write16 env c 0xFFFF v =
     gb_write8 env (gb_write8 env c 0xFFFF (ucast v)) 0x0000 (ucast (drop_bit 8 v))"
    unfolding gb_write16_def Let_def u16_wrap_up ucast_and_FF ..
  have w16': "gb_write16 env ctx 0xFFFF v =
     ctx\<lparr>io := (io ctx)[0x80 := ucast v],
         ram_enabled := ((ucast (drop_bit 8 v) :: u8) AND 0x0F = 0x0A)\<rparr>"
    unfolding w16 gb_write8_IE by (simp add: gb_write8_ram_enable)
  have p: "gb_push16 env (ctx\<lparr>sp := 0x0001\<rparr>) v =
     gb_write8 env (gb_write8 env (ctx\<lparr>sp := 0xFFFF\<rparr>) 0xFFFF (ucast v)) 0x0000 (ucast (drop_bit 8 v))"
  proof -
    have "gb_push16 env (ctx\<lparr>sp := 0x0001\<rparr>) v = gb_write16 env (ctx\<lparr>sp := 0x0001 - 2\<rparr>) (0x0001 - 2) v"
      by (simp add: gb_push16_def Let_def)
    then show ?thesis unfolding u16_wrap_down w16 .
  qed
  have b: "length (io ctx) = 0x81 \<longrightarrow>
      gb_read8 env (gb_write16 env ctx 0xFFFF v) 0xFFFF = ucast v"
    unfolding w16' gb_read8_IE by simp
  show ?thesis using r16 w16 w16' p b gb_read8_0 gb_read8_IE by blast
qed

theorem bus16_wraps_witness:
  "gb_read8 stub_env (gb_write16 stub_env reset_ctx 0xFFFF 0x1A34) 0xFFFF = 0x34 \<and>
   ram_enabled (gb_write16 stub_env reset_ctx 0xFFFF 0x1A34) \<and>
   wram (gb_write16 stub_env reset_ctx 0xFFFF 0x1A34) = wram reset_ctx \<and>
   gb_read16 stub_env reset_ctx 0xFFFF = 0xFF00"
proof -
  note t = bus16_wraps[where env=stub_env and ctx=reset_ctx and v="0x1A34"]
  have lo: "(ucast (0x1A34 :: u16) :: u8) = 0x34" by simp
  have hi: "((ucast (drop_bit 8 (0x1A34 :: u16)) :: u8) AND 0x0F = 0x0A) = True" by simp
  have len: "length (io reset_ctx) = 0x81" by (simp add: reset_ctx_fields)
  from t len have "gb_read8 stub_env (gb_write16 stub_env reset_ctx 0xFFFF 0x1A34) 0xFFFF = ucast (0x1A34 :: u16)"
    by blast
  then have r: "gb_read8 stub_env (gb_write16 stub_env reset_ctx 0xFFFF 0x1A34) 0xFFFF = 0x34"
    by (simp only: lo)
  from t have w: "gb_write16 stub_env reset_ctx 0xFFFF 0x1A34 =
     reset_ctx\<lparr>io := (io reset_ctx)[0x80 := ucast (0x1A34 :: u16)],
         ram_enabled := ((ucast (drop_bit 8 (0x1A34 :: u16)) :: u8) AND 0x0F = 0x0A)\<rparr>"
    by blast
  have e: "ram_enabled (gb_write16 stub_env reset_ctx 0xFFFF 0x1A34)"
    unfolding w hi by simp
  have m: "wram (gb_write16 stub_env reset_ctx 0xFFFF 0x1A34) = wram reset_ctx"
    unfolding w by simp
  from t have "gb_read16 stub_env reset_ctx 0xFFFF =
     (ucast (io reset_ctx ! 0x80) :: u16) OR push_bit 8 (ucast (case rom reset_ctx of None \<Rightarrow> 0xFF | Some r \<Rightarrow> r ! 0) :: u16)"
    by simp
  then have g: "gb_read16 stub_env reset_ctx 0xFFFF = 0xFF00"
    by (simp add: reset_ctx_fields)
  show ?thesis using r e m g by blast
qed

section \<open>The interrupt controller at a concrete state\<close>

lemma vblank_ctx_fields:
  "sp vblank_ctx = 0xFFFE" "pc vblank_ctx = 0x0100"
  "\<not> ime vblank_ctx" "\<not> ime_pending vblank_ctx" "\<not> halted vblank_ctx"
  "cycles vblank_ctx = 0" "frame_cycles vblank_ctx = 0"
  "wram vblank_ctx = replicate 0x8000 0" "hram vblank_ctx = replicate 0x7F 0"
  "io vblank_ctx = (replicate 0x81 0)[0x0F := 0xE1, 0x80 := 0x01]"
  "ppu vblank_ctx = Some ()" "a vblank_ctx = 0x01"
  by (simp_all add: vblank_ctx_def reset_ctx_fields)

lemma gb_dispatch_below_hram:
  "addr < 0xFF80 \<Longrightarrow> gb_dispatch env ctx addr = ctx\<lparr>pc := addr\<rparr>"
proof -
  assume "addr < 0xFF80"
  then have n: "\<not> 0xFF80 \<le> addr" by (simp add: not_le)
  show ?thesis by (simp add: gb_dispatch_def gb_interpret_def Let_def n)
qed

text \<open>
  C1, at a concrete state: IME set, VBlank flagged in IF and enabled in IE, PC = 0x0100,
  SP = 0xFFFE. The tick clears IME and \<^verbatim>\<open>halted\<close>, clears bit 0 of IF and sets PC to the
  vector 0x0040, as the claim says, but it pushes nothing: SP is still 0xFFFE and no byte of
  HRAM or WRAM has changed. \<^verbatim>\<open>gb_call\<close> from the same state leaves SP = 0xFFFC with the
  return address 0x0100 on the stack.
\<close>

theorem gb_tick_dispatch_without_push:
  "pc (gb_tick stub_env (vblank_ctx\<lparr>ime := True\<rparr>) 4) = 0x0040 \<and>
   \<not> ime (gb_tick stub_env (vblank_ctx\<lparr>ime := True\<rparr>) 4) \<and>
   \<not> halted (gb_tick stub_env (vblank_ctx\<lparr>ime := True\<rparr>) 4) \<and>
   io (gb_tick stub_env (vblank_ctx\<lparr>ime := True\<rparr>) 4) ! 0x0F = 0xE0 \<and>
   sp (gb_tick stub_env (vblank_ctx\<lparr>ime := True\<rparr>) 4) = 0xFFFE \<and>
   hram (gb_tick stub_env (vblank_ctx\<lparr>ime := True\<rparr>) 4) = hram vblank_ctx \<and>
   wram (gb_tick stub_env (vblank_ctx\<lparr>ime := True\<rparr>) 4) = wram vblank_ctx \<and>
   sp (gb_call stub_env (vblank_ctx\<lparr>ime := True\<rparr>) 0x0040) = 0xFFFC \<and>
   gb_read16 stub_env (gb_call stub_env (vblank_ctx\<lparr>ime := True\<rparr>) 0x0040) 0xFFFC = 0x0100"
proof -
  let ?c = "vblank_ctx\<lparr>ime := True\<rparr>"
  have t: "gb_tick stub_env ?c 4 =
      ?c\<lparr>cycles := 4, frame_cycles := 4, ime := False, halted := False,
          io := (io vblank_ctx)[0x0F := 0xE0], pc := 0x0040\<rparr>"
    by (simp add: gb_tick_def gb_add_cycles_def gb_tick_interrupts_def gb_tick_ppu_def
          gb_tick_poll_def gb_dispatch_below_hram Let_def vblank_ctx_fields stub_env_fields)
  have c: "gb_call stub_env ?c 0x0040 =
      ?c\<lparr>sp := 0xFFFC, hram := (hram vblank_ctx)[0x7C := 0x00, 0x7D := 0x01], pc := 0x0040\<rparr>"
    by (simp add: gb_call_def gb_push16_def gb_write16_def gb_write8.simps
          gb_dispatch_below_hram Let_def vblank_ctx_fields)
  have r: "gb_read16 stub_env (?c\<lparr>sp := 0xFFFC, hram := (hram vblank_ctx)[0x7C := 0x00, 0x7D := 0x01], pc := 0x0040\<rparr>) 0xFFFC = 0x0100"
    by (simp add: gb_read16_def gb_read8.simps Let_def vblank_ctx_fields)
  show ?thesis unfolding t c using r by (simp add: vblank_ctx_fields)
qed

text \<open>
  C2, at a concrete state: IME = 0, no enable pending, VBlank flagged in IF and enabled in
  IE, PC = 0x0100. Once EI has set \<^verbatim>\<open>ime_pending\<close>, the tick that ends the EI instruction
  promotes it to IME and dispatches the interrupt in the same call: PC is 0x0040 and the
  IF bit is cleared before the instruction after EI has run.
\<close>

theorem ei_interrupt_before_next_instruction:
  "pc (gb_tick stub_env (vblank_ctx\<lparr>ime_pending := True\<rparr>) 4) = 0x0040 \<and>
   io (gb_tick stub_env (vblank_ctx\<lparr>ime_pending := True\<rparr>) 4) ! 0x0F = 0xE0 \<and>
   \<not> ime (gb_tick stub_env (vblank_ctx\<lparr>ime_pending := True\<rparr>) 4) \<and>
   \<not> ime_pending (gb_tick stub_env (vblank_ctx\<lparr>ime_pending := True\<rparr>) 4) \<and>
   \<not> ime vblank_ctx \<and> \<not> ime_pending vblank_ctx \<and> pc vblank_ctx = 0x0100 \<and>
   io vblank_ctx ! 0x0F AND io vblank_ctx ! 0x80 AND 0x1F = 0x01"
proof -
  let ?c = "vblank_ctx\<lparr>ime_pending := True\<rparr>"
  have t: "gb_tick stub_env ?c 4 =
      ?c\<lparr>cycles := 4, frame_cycles := 4, ime_pending := False, ime := False, halted := False,
          io := (io vblank_ctx)[0x0F := 0xE0], pc := 0x0040\<rparr>"
    by (simp add: gb_tick_def gb_add_cycles_def gb_tick_interrupts_def gb_tick_ppu_def
          gb_tick_poll_def gb_dispatch_below_hram Let_def vblank_ctx_fields stub_env_fields)
  show ?thesis unfolding t by (simp add: vblank_ctx_fields)
qed

section \<open>Loading accepts every image\<close>







section \<open>The tick keeps the cycle count; the HALT loop is bounded\<close>


lemma gb_tick_interrupts_sp: "sp (gb_tick_interrupts env ctx) = sp ctx"
  by (simp add: gb_tick_interrupts_def Let_def gb_dispatch_below_hram)














end
